theory Spec2Isabelle
  imports Main "HOL-Library.Sublist"
begin

section \<open>The assistant role of metagpt/roles/assistant.py\<close>

text \<open>
  The class \<open>Assistant\<close> keeps a conversation memory and a pending action. Its
  coroutines are modelled as functions from the state of the object to a result and the
  state afterwards. A raised exception is the result \<open>Inl e\<close>; the state that comes with
  it is the state at the moment of the raise, as in Python, where whatever was assigned
  before the raise stays assigned.
\<close>

subsection \<open>Message types, messages and actions\<close>

datatype MessageType = Talk | Solution | Problem | Skill

text \<open>
  Modelled from the spec: the enumeration \<open>MessageType\<close> of metagpt/memory/brain_memory.py
  is not among the sources. Its members are the four tags of the data model; the value
  of a member is the word of its marker in the classification prompt that \<open>think\<close> builds.
\<close>

fun MessageType_value :: "MessageType \<Rightarrow> string" where
  "MessageType_value Talk = ''TALK''"
| "MessageType_value Solution = ''SOLUTION''"
| "MessageType_value Problem = ''PROBLEM''"
| "MessageType_value Skill = ''SKILL''"

datatype exn = Exception string

datatype action_class = TalkActionClass | SkillActionClass

text \<open>
  \<open>Message\<close> as assistant.py constructs it: \<open>Message(content=..., tags=...)\<close> in
  \<open>talk\<close> and \<open>Message(content=..., instruct_content=..., cause_by=...)\<close> in \<open>act\<close>.
\<close>

record Message =
  content :: string
  instruct_content :: "string option"
  cause_by :: "action_class option"
  tags :: "string set"

definition new_message :: "string \<Rightarrow> Message" where
  "new_message text = \<lparr>content = text, instruct_content = None, cause_by = None, tags = {}\<rparr>"

record ActionOutput =
  out_content :: string
  out_instruct_content :: "string option"

record Skill_def =
  skill_name :: string
  skill_description :: string

type_synonym arguments = "(string \<times> string) list"

text \<open>
  The action stored by \<open>add_to_do\<close>. \<open>TalkAction\<close> is built from the text to reply to,
  the knowledge of the memory and the keyword \<open>last_talk\<close>; \<open>SkillAction\<close> from the
  skill, its arguments, and the skill's name and description. The options and the
  language model handed to both constructors are the same in every call and are left out.
\<close>

datatype PendingAction =
  TalkAction string string string
| SkillAction Skill_def arguments string string

fun type_of_action :: "PendingAction \<Rightarrow> action_class" where
  "type_of_action (TalkAction t k l) = TalkActionClass"
| "type_of_action (SkillAction s a n d) = SkillActionClass"

subsection \<open>Conversation memory\<close>

text \<open>
  Modelled from the spec: the class \<open>BrainMemory\<close> of metagpt/memory/brain_memory.py is
  not among the sources. The memory is an insertion-ordered log of utterances and an
  archive filled by the checkpoint. An utterance is a message with the side it came from
  (the time stamp of the data model is read by nothing here and is left out).
  \<^item> \<open>add_talk\<close> appends an entry tagged Talk, \<open>add_answer\<close> appends an answer entry;
  \<^item> \<open>last_talk\<close> is the content of the most recent talk entry that is not yet
    consumed, that is, of the last entry of the log when it is tagged Talk, and absent
    otherwise (after an answer, or after a checkpoint with no new talk since);
  \<^item> \<open>history_text\<close> is the concatenation of the entries since the last checkpoint, in
    order, without the current last-talk entry; the empty string when there is none;
  \<^item> \<open>move_to_solution\<close>, the checkpoint, archives the log and clears it.
\<close>

datatype role = RoleTalk | RoleAnswer

record Utterance =
  utt_role :: role
  utt_message :: Message

record BrainMemory =
  history :: "Utterance list"
  solution :: "Utterance list"

definition add_talk :: "BrainMemory \<Rightarrow> Message \<Rightarrow> BrainMemory" where
  "add_talk m msg =
     m\<lparr>history := history m @
        [\<lparr>utt_role = RoleTalk,
          utt_message = msg\<lparr>tags := insert (MessageType_value Talk) (tags msg)\<rparr>\<rparr>]\<rparr>"

definition add_answer :: "BrainMemory \<Rightarrow> Message \<Rightarrow> BrainMemory" where
  "add_answer m msg =
     m\<lparr>history := history m @ [\<lparr>utt_role = RoleAnswer, utt_message = msg\<rparr>]\<rparr>"

definition is_talk :: "Utterance \<Rightarrow> bool" where
  "is_talk u = (MessageType_value Talk \<in> tags (utt_message u))"

definition last_talk :: "BrainMemory \<Rightarrow> string option" where
  "last_talk m =
     (case rev (history m) of
        [] \<Rightarrow> None
      | u # _ \<Rightarrow> if is_talk u then Some (content (utt_message u)) else None)"

definition history_text :: "BrainMemory \<Rightarrow> string" where
  "history_text m =
     concat (map (\<lambda>u. content (utt_message u))
       (case last_talk m of
          None \<Rightarrow> history m
        | Some _ \<Rightarrow> butlast (history m)))"

definition move_to_solution :: "BrainMemory \<Rightarrow> BrainMemory" where
  "move_to_solution m = m\<lparr>solution := solution m @ history m, history := []\<rparr>"

subsection \<open>Collaborators\<close>

text \<open>
  The language model, the skill loader, the argument parsing action and the actions'
  \<open>run\<close> are outside assistant.py. They are parameters of the model. A call of the
  language model either returns or raises. Within one call of \<open>think\<close> each of the four
  operations is called at most once, so a function from the arguments to the outcome
  describes any run of it.
\<close>

record LLM =
  aask :: "string \<Rightarrow> exn + string"
  get_context_title :: "string \<Rightarrow> nat \<Rightarrow> exn + string"
  is_related :: "string \<Rightarrow> string \<Rightarrow> exn + bool"
  rewrite :: "string \<Rightarrow> string \<Rightarrow> exn + string"

text \<open>
  \<open>get_skill_list\<close> is the dictionary from description to name, in its order;
  \<open>get_skill\<close> looks a name up.
\<close>

record SkillLoader =
  get_skill_list :: "(string \<times> string) list"
  get_skill :: "string \<Rightarrow> Skill_def option"

text \<open>What an action's \<open>run\<close> returns: \<open>None\<close>, a string, or an \<open>ActionOutput\<close>.\<close>

datatype run_result = NoResult | Text string | Output ActionOutput

text \<open>
  \<open>get_knowledge\<close> is the knowledge excerpt of the memory, of which the spec fixes
  nothing but that it is a view of the memory. \<open>parse_arguments skill last_talk\<close> is
  \<open>ArgumentsParingAction(skill=skill, last_talk=last_talk).run(last_talk=last_talk)\<close>
  followed by reading \<open>action.args\<close>.
\<close>

record env =
  llm :: LLM
  skills :: SkillLoader
  get_knowledge :: "BrainMemory \<Rightarrow> string"
  parse_arguments :: "Skill_def \<Rightarrow> string \<Rightarrow> exn + arguments option"
  run_action :: "PendingAction \<Rightarrow> exn + run_result"

subsection \<open>The state of the assistant\<close>

text \<open>
  \<open>memory\<close> is \<open>self.memory\<close> and \<open>todo\<close> is \<open>self._rc.todo\<close>. \<open>llm_calls\<close> records
  every call made to the language model, in order, and \<open>logged\<close> every line handed to
  the logger; the program reads neither.
\<close>

datatype llm_call =
  Aask string
| GetContextTitle string nat
| IsRelated string string
| Rewrite string string

datatype log_line = Info string | LogException string

record Assistant =
  memory :: BrainMemory
  todo :: "PendingAction option"
  llm_calls :: "llm_call list"
  logged :: "log_line list"

definition called :: "llm_call \<Rightarrow> Assistant \<Rightarrow> Assistant" where
  "called c st = st\<lparr>llm_calls := llm_calls st @ [c]\<rparr>"

definition logger :: "log_line \<Rightarrow> Assistant \<Rightarrow> Assistant" where
  "logger l st = st\<lparr>logged := logged st @ [l]\<rparr>"

text \<open>\<open>add_to_do\<close> of the base class stores the action to execute next.\<close>

definition add_to_do :: "PendingAction \<Rightarrow> Assistant \<Rightarrow> Assistant" where
  "add_to_do a st = st\<lparr>todo := Some a\<rparr>"

subsection \<open>refine_memory\<close>

text \<open>
  \<open>last_talk and await is_related(...)\<close> asks the model only when \<open>last_talk\<close> is not
  the empty string; an empty last talk goes on to the checkpoint.
\<close>

definition refine_memory :: "env \<Rightarrow> Assistant \<Rightarrow> (exn + string option) \<times> Assistant" where
  "refine_memory E st =
     (let h = history_text (memory st) in
      case last_talk (memory st) of
        None \<Rightarrow> (Inr None, st)
      | Some lt \<Rightarrow>
          (if h = [] then (Inr (Some lt), st)
           else
             (let st1 = called (GetContextTitle h 20) st in
              case get_context_title (llm E) h 20 of
                Inl e \<Rightarrow> (Inl e, st1)
              | Inr history_summary \<Rightarrow>
                  (if lt = []
                   then (Inr (Some lt), st1\<lparr>memory := move_to_solution (memory st1)\<rparr>)
                   else
                     (let st2 = called (IsRelated lt history_summary) st1 in
                      case is_related (llm E) lt history_summary of
                        Inl e \<Rightarrow> (Inl e, st2)
                      | Inr related \<Rightarrow>
                          (if related
                           then
                             (let st3 = called (Rewrite lt h) st2 in
                              case rewrite (llm E) lt h of
                                Inl e \<Rightarrow> (Inl e, st3)
                              | Inr r \<Rightarrow> (Inr (Some r), st3))
                           else
                             (Inr (Some lt),
                              st2\<lparr>memory := move_to_solution (memory st2)\<rparr>)))))))"

subsection \<open>extract_info\<close>

text \<open>
  Modelled from the spec: \<open>Assistant.extract_info\<close> hands its argument to
  \<open>OpenAIGPTAPI.extract_info\<close> of metagpt/provider/openai_api.py, which is not among the
  sources. The parser knows the four markers \<open>[SKILL]:\<close>, \<open>[SOLUTION]:\<close>,
  \<open>[PROBLEM]:\<close> and \<open>[TALK]:\<close>, case-sensitively. It scans the text for the first
  place where a marker stands; the tag is that marker's type and the payload is taken
  from the rest of the line after the marker. For Problem, Solution and Talk the payload
  is free text: the rest of the line, trimmed. For Skill the payload is a capability
  identifier: the white space after the marker is skipped and the payload ends at the
  next boundary, the first character that is not a letter, a digit or an underscore, so
  that \<open>sure, [SKILL]: text_to_image please\<close> has the payload \<open>text_to_image\<close>. When no
  marker is found the tag is Talk and the payload is the whole input, trimmed.
\<close>

definition markers :: "(MessageType \<times> string) list" where
  "markers =
     [(Skill, ''[SKILL]:''), (Solution, ''[SOLUTION]:''),
      (Problem, ''[PROBLEM]:''), (Talk, ''[TALK]:'')]"

definition newline :: char where
  "newline = CHR 0x0A"

definition is_space :: "char \<Rightarrow> bool" where
  "is_space c = (c \<in> {CHR '' '', CHR 0x09, CHR 0x0A, CHR 0x0B, CHR 0x0C, CHR 0x0D})"

definition strip :: "string \<Rightarrow> string" where
  "strip s = rev (dropWhile is_space (rev (dropWhile is_space s)))"

fun strip_prefix :: "string \<Rightarrow> string \<Rightarrow> string option" where
  "strip_prefix [] s = Some s"
| "strip_prefix (p # ps) [] = None"
| "strip_prefix (p # ps) (c # cs) = (if p = c then strip_prefix ps cs else None)"

fun marker_at :: "(MessageType \<times> string) list \<Rightarrow> string \<Rightarrow> (MessageType \<times> string) option" where
  "marker_at [] s = None"
| "marker_at ((t, m) # ms) s =
     (case strip_prefix m s of
        Some rest \<Rightarrow> Some (t, rest)
      | None \<Rightarrow> marker_at ms s)"

fun first_marker :: "string \<Rightarrow> (MessageType \<times> string) option" where
  "first_marker [] = None"
| "first_marker (c # cs) =
     (case marker_at markers (c # cs) of
        Some found \<Rightarrow> Some found
      | None \<Rightarrow> first_marker cs)"

definition is_identifier :: "char \<Rightarrow> bool" where
  "is_identifier c =
     (c \<in> set ''abcdefghijklmnopqrstuvwxyzABCDEFGHIJKLMNOPQRSTUVWXYZ0123456789_'')"

definition payload :: "MessageType \<Rightarrow> string \<Rightarrow> string" where
  "payload t rest =
     (let line = takeWhile (\<lambda>c. c \<noteq> newline) rest in
      if t = Skill then takeWhile is_identifier (dropWhile is_space line)
      else strip line)"

definition extract_info :: "string \<Rightarrow> string \<times> string" where
  "extract_info input_string =
     (case first_marker input_string of
        Some (t, rest) \<Rightarrow> (MessageType_value t, payload t rest)
      | None \<Rightarrow> (MessageType_value Talk, strip input_string))"

subsection \<open>The handlers and the dispatcher\<close>

text \<open>
  \<open>plan\<close> is the method \<open>_plan\<close>. It is called by \<open>think\<close> alone, with the one
  keyword \<open>last_talk\<close>; the keyword arguments of the handlers are that string.
\<close>

definition talk_handler :: "env \<Rightarrow> string \<Rightarrow> string \<Rightarrow> Assistant \<Rightarrow> (exn + bool) \<times> Assistant" where
  "talk_handler E text last_talk_kw st =
     (let action = TalkAction text (get_knowledge E (memory st)) last_talk_kw in
      (Inr True, add_to_do action st))"

definition skill_handler :: "env \<Rightarrow> string \<Rightarrow> string \<Rightarrow> Assistant \<Rightarrow> (exn + bool) \<times> Assistant" where
  "skill_handler E text last_talk_kw st =
     (case get_skill (skills E) text of
        None \<Rightarrow>
          talk_handler E last_talk_kw last_talk_kw
            (logger (Info (''skill not found: '' @ text)) st)
      | Some skill \<Rightarrow>
          (case parse_arguments E skill last_talk_kw of
             Inl e \<Rightarrow> (Inl e, st)
           | Inr None \<Rightarrow> talk_handler E last_talk_kw last_talk_kw st
           | Inr (Some args) \<Rightarrow>
               (let action = SkillAction skill args (skill_name skill) (skill_description skill) in
                (Inr True, add_to_do action st))))"

datatype handler = TalkHandler | SkillHandler

definition handlers :: "string \<Rightarrow> handler option" where
  "handlers =
     [MessageType_value Talk \<mapsto> TalkHandler,
      MessageType_value Problem \<mapsto> TalkHandler,
      MessageType_value Skill \<mapsto> SkillHandler]"

fun run_handler :: "handler \<Rightarrow> env \<Rightarrow> string \<Rightarrow> string \<Rightarrow> Assistant \<Rightarrow> (exn + bool) \<times> Assistant" where
  "run_handler TalkHandler = talk_handler"
| "run_handler SkillHandler = skill_handler"

definition plan :: "env \<Rightarrow> string \<Rightarrow> string \<Rightarrow> Assistant \<Rightarrow> (exn + bool) \<times> Assistant" where
  "plan E rsp last_talk_kw st =
     (case extract_info rsp of
        (skill, text) \<Rightarrow>
          (let handler = (case handlers skill of None \<Rightarrow> TalkHandler | Some h \<Rightarrow> h) in
           run_handler handler E text last_talk_kw st))"

subsection \<open>think\<close>

definition skill_line :: "string \<times> string \<Rightarrow> string" where
  "skill_line dn =
     ''If want you to do '' @ fst dn @ '', return `[SKILL]: '' @ snd dn @
     ''` brief and clear. For instance: [SKILL]: text_to_image'' @ [newline]"

definition build_prompt :: "string \<Rightarrow> (string \<times> string) list \<Rightarrow> string" where
  "build_prompt lt skill_list =
     ''Refer to this sentence:'' @ [newline] @ '' '' @ lt @ [newline] @
     concat (map skill_line skill_list) @
     ''If the preceding text presents a complete question and solution, rewrite and return `[SOLUTION]: {problem}` brief and clear. For instance: [SOLUTION]: Solution for distributing watermelon'' @ [newline] @
     ''If the preceding text presents an unresolved issue and its corresponding discussion, rewrite and return `[PROBLEM]: {problem}` brief and clear. For instance: [PROBLEM]: How to distribute watermelon?'' @ [newline] @
     ''Otherwise, rewrite and return `[TALK]: {talk}` brief and clear. For instance: [TALK]: distribute watermelon''"

text \<open>\<open>not last_talk\<close> holds for \<open>None\<close> and for the empty string.\<close>

definition think :: "env \<Rightarrow> Assistant \<Rightarrow> (exn + bool) \<times> Assistant" where
  "think E st =
     (case refine_memory E st of
        (Inl e, st1) \<Rightarrow> (Inl e, st1)
      | (Inr None, st1) \<Rightarrow> (Inr False, st1)
      | (Inr (Some lt), st1) \<Rightarrow>
          (if lt = [] then (Inr False, st1)
           else
             (let prompt = build_prompt lt (get_skill_list (skills E));
                  st2 = called (Aask prompt) (logger (Info prompt) st1) in
              case aask (llm E) prompt of
                Inl e \<Rightarrow> (Inl e, st2)
              | Inr rsp \<Rightarrow> plan E rsp lt (logger (Info rsp) st2))))"

subsection \<open>act, talk and load_memory\<close>

text \<open>
  \<open>self._rc.todo.run\<close> on \<open>None\<close> raises an AttributeError. \<open>not result\<close> holds for
  \<open>None\<close> and for the empty string; an \<open>ActionOutput\<close> is an object and never false.
\<close>

definition falsy :: "run_result \<Rightarrow> bool" where
  "falsy r = (r = NoResult \<or> r = Text [])"

definition act :: "env \<Rightarrow> Assistant \<Rightarrow> (exn + ActionOutput option) \<times> Assistant" where
  "act E st =
     (case todo st of
        None \<Rightarrow> (Inl (Exception ''AttributeError''), st)
      | Some action \<Rightarrow>
          (case run_action E action of
             Inl e \<Rightarrow> (Inl e, st)
           | Inr NoResult \<Rightarrow> (Inr None, st)
           | Inr (Text result) \<Rightarrow>
               (if result = [] then (Inr None, st)
                else
                  (Inr (Some \<lparr>out_content = result, out_instruct_content = None\<rparr>),
                   st\<lparr>memory := add_answer (memory st) (new_message result)\<rparr>))
           | Inr (Output result) \<Rightarrow>
               (Inr (Some result),
                st\<lparr>memory := add_answer (memory st)
                  ((new_message (out_content result))
                     \<lparr>instruct_content := out_instruct_content result,
                      cause_by := Some (type_of_action action)\<rparr>)\<rparr>)))"

definition talk :: "string \<Rightarrow> Assistant \<Rightarrow> Assistant" where
  "talk text st =
     st\<lparr>memory := add_talk (memory st)
       ((new_message text)\<lparr>tags := {MessageType_value Talk}\<rparr>)\<rparr>"


subsection \<open>Concrete collaborators and states\<close>

text \<open>
  A language model with fixed answers, a catalog with one skill, and the states of a
  short conversation. They serve as concrete inputs.
\<close>

definition fixed_llm :: "bool \<Rightarrow> (exn + string) \<Rightarrow> LLM" where
  "fixed_llm related rsp =
     \<lparr>aask = (\<lambda>prompt. rsp),
      get_context_title = (\<lambda>text max_words. Inr ''fruit''),
      is_related = (\<lambda>a b. Inr related),
      rewrite = (\<lambda>sentence context. Inr (''about fruit: '' @ sentence))\<rparr>"

definition text_to_image :: Skill_def where
  "text_to_image = \<lparr>skill_name = ''text_to_image'', skill_description = ''draw a picture''\<rparr>"

definition one_skill :: SkillLoader where
  "one_skill =
     \<lparr>get_skill_list = [(''draw a picture'', ''text_to_image'')],
      get_skill = (\<lambda>name. if name = ''text_to_image'' then Some text_to_image else None)\<rparr>"

definition fixed_env :: "bool \<Rightarrow> (exn + string) \<Rightarrow> arguments option \<Rightarrow> run_result \<Rightarrow> env" where
  "fixed_env related rsp parsed result =
     \<lparr>llm = fixed_llm related rsp,
      skills = one_skill,
      get_knowledge = (\<lambda>m. []),
      parse_arguments = (\<lambda>skill text. Inr parsed),
      run_action = (\<lambda>action. Inr result)\<rparr>"

definition failing_parser_env :: env where
  "failing_parser_env =
     (fixed_env True (Inr ''[SKILL]: text_to_image'') None NoResult)
       \<lparr>parse_arguments := (\<lambda>skill text. Inl (Exception ''timeout''))\<rparr>"

definition draw_arguments :: arguments where
  "draw_arguments = [(''text'', ''an apple'')]"

definition new_assistant :: Assistant where
  "new_assistant =
     \<lparr>memory = \<lparr>history = [], solution = []\<rparr>, todo = None, llm_calls = [], logged = []\<rparr>"

definition first_turn :: Assistant where
  "first_turn = talk ''what is apple'' new_assistant"


definition answered_turn :: Assistant where
  "answered_turn = first_turn\<lparr>memory := add_answer (memory first_turn) (new_message ''a fruit'')\<rparr>"

definition second_turn :: Assistant where
  "second_turn = talk ''draw one'' answered_turn"




section \<open>Properties\<close>

subsection \<open>Facts about the parser and the handler table\<close>

lemma strip_prefix_append: "strip_prefix p s = Some rest \<Longrightarrow> s = p @ rest"
  by (induction p s rule: strip_prefix.induct) (auto split: if_splits)

lemma marker_at_prefix:
  "marker_at ms s = Some (t, rest) \<Longrightarrow> \<exists>m. (t, m) \<in> set ms \<and> prefix m s"
proof (induction ms s rule: marker_at.induct)
  case (1 s)
  then show ?case by simp
next
  case (2 t' m ms s)
  show ?case
  proof (cases "strip_prefix m s")
    case None
    with 2 show ?thesis by auto
  next
    case (Some r)
    then have "prefix m s" using strip_prefix_append by (auto simp: prefix_def)
    moreover from Some 2(2) have "t' = t" by simp
    ultimately show ?thesis by auto
  qed
qed

lemma first_marker_sublist:
  "first_marker s = Some (t, rest) \<Longrightarrow> \<exists>m. (t, m) \<in> set markers \<and> sublist m s"
proof (induction s)
  case Nil
  then show ?case by simp
next
  case (Cons c cs)
  show ?case
  proof (cases "marker_at markers (c # cs)")
    case None
    with Cons.prems have "first_marker cs = Some (t, rest)" by simp
    with Cons.IH obtain m where "(t, m) \<in> set markers" "sublist m cs" by blast
    then show ?thesis by (auto intro: sublist_Cons_right[THEN iffD2])
  next
    case (Some found)
    with Cons.prems have "marker_at markers (c # cs) = Some (t, rest)" by simp
    then obtain m where "(t, m) \<in> set markers" "prefix m (c # cs)"
      using marker_at_prefix by blast
    then show ?thesis by (auto intro: prefix_imp_sublist)
  qed
qed

lemma first_marker_none:
  assumes "\<not> sublist ''[SKILL]:'' s" "\<not> sublist ''[SOLUTION]:'' s"
    "\<not> sublist ''[PROBLEM]:'' s" "\<not> sublist ''[TALK]:'' s"
  shows "first_marker s = None"
proof (cases "first_marker s")
  case None
  then show ?thesis .
next
  case (Some found)
  obtain t rest where "found = (t, rest)" by (cases found)
  with Some first_marker_sublist obtain m where "(t, m) \<in> set markers" "sublist m s"
    by blast
  with assms show ?thesis by (auto simp: markers_def)
qed

lemma extract_info_skill_unknown: "extract_info ''[SKILL]: unknown_x'' = (MessageType_value Skill, ''unknown_x'')"
  by (simp add: extract_info_def markers_def payload_def strip_def is_space_def
      is_identifier_def newline_def)

lemma extract_info_skill_known: "extract_info ''[SKILL]: text_to_image'' = (MessageType_value Skill, ''text_to_image'')"
  by (simp add: extract_info_def markers_def payload_def strip_def is_space_def
      is_identifier_def newline_def)

lemma extract_info_talk: "extract_info ''[TALK]: what is apple'' = (MessageType_value Talk, ''what is apple'')"
  by (simp add: extract_info_def markers_def payload_def strip_def is_space_def
      is_identifier_def newline_def)

lemma extract_info_solution: "extract_info ''[SOLUTION]: done'' = (MessageType_value Solution, ''done'')"
  by (simp add: extract_info_def markers_def payload_def strip_def is_space_def
      is_identifier_def newline_def)

lemma extract_info_mid_string:
  "extract_info ''sure, [SKILL]: text_to_image please'' =
     (MessageType_value Skill, ''text_to_image'')"
  by (simp add: extract_info_def markers_def payload_def strip_def is_space_def
      is_identifier_def newline_def)

lemma plan_talk:
  "extract_info rsp = (MessageType_value Talk, text) \<Longrightarrow> plan E rsp lt st = talk_handler E text lt st"
  by (simp add: plan_def handlers_def)

lemma plan_skill:
  "extract_info rsp = (MessageType_value Skill, text) \<Longrightarrow> plan E rsp lt st = skill_handler E text lt st"
  by (simp add: plan_def handlers_def)

subsection \<open>Facts about the concrete states\<close>

lemma first_turn_last_talk: "last_talk (memory first_turn) = Some ''what is apple''"
  by (simp add: first_turn_def talk_def new_assistant_def add_talk_def new_message_def
      last_talk_def is_talk_def)

lemma first_turn_history_text: "history_text (memory first_turn) = []"
  unfolding history_text_def first_turn_last_talk
  by (simp add: first_turn_def talk_def new_assistant_def add_talk_def)

lemma first_turn_refine: "refine_memory E first_turn = (Inr (Some ''what is apple''), first_turn)"
  by (simp add: refine_memory_def first_turn_last_talk first_turn_history_text)

lemma second_turn_last_talk: "last_talk (memory second_turn) = Some ''draw one''"
  by (simp add: second_turn_def answered_turn_def first_turn_def talk_def new_assistant_def
      add_talk_def add_answer_def new_message_def last_talk_def is_talk_def)

lemma second_turn_history_text: "history_text (memory second_turn) = ''what is applea fruit''"
  unfolding history_text_def second_turn_last_talk
  by (simp add: second_turn_def answered_turn_def first_turn_def talk_def new_assistant_def
      add_talk_def add_answer_def new_message_def)

lemma second_turn_think_timeout:
  "think (fixed_env False (Inl (Exception ''timeout'')) None NoResult) second_turn =
     (Inl (Exception ''timeout''),
      called (Aask (build_prompt ''draw one'' (get_skill_list one_skill)))
        (logger (Info (build_prompt ''draw one'' (get_skill_list one_skill)))
          ((called (IsRelated ''draw one'' ''fruit'')
             (called (GetContextTitle ''what is applea fruit'' 20) second_turn))
             \<lparr>memory := move_to_solution (memory second_turn)\<rparr>)))"
proof -
  have r: "refine_memory (fixed_env False (Inl (Exception ''timeout'')) None NoResult) second_turn =
    (Inr (Some ''draw one''),
     (called (IsRelated ''draw one'' ''fruit'')
       (called (GetContextTitle ''what is applea fruit'' 20) second_turn))
       \<lparr>memory := move_to_solution (memory second_turn)\<rparr>)"
    by (simp add: refine_memory_def second_turn_last_talk second_turn_history_text
        fixed_env_def fixed_llm_def called_def Let_def)
  have a: "aask (llm (fixed_env False (Inl (Exception ''timeout'')) None NoResult)) p =
      Inl (Exception ''timeout'')" for p
    by (simp add: fixed_env_def fixed_llm_def)
  have s: "skills (fixed_env False (Inl (Exception ''timeout'')) None NoResult) = one_skill"
    by (simp add: fixed_env_def)
  show ?thesis
    by (simp add: think_def r a s Let_def)
qed

lemma second_turn_think_timeout_related:
  "think (fixed_env True (Inl (Exception ''timeout'')) None NoResult) second_turn =
     (Inl (Exception ''timeout''),
      called (Aask (build_prompt ''about fruit: draw one'' (get_skill_list one_skill)))
        (logger (Info (build_prompt ''about fruit: draw one'' (get_skill_list one_skill)))
          (called (Rewrite ''draw one'' ''what is applea fruit'')
            (called (IsRelated ''draw one'' ''fruit'')
              (called (GetContextTitle ''what is applea fruit'' 20) second_turn)))))"
proof -
  have r: "refine_memory (fixed_env True (Inl (Exception ''timeout'')) None NoResult) second_turn =
    (Inr (Some ''about fruit: draw one''),
     called (Rewrite ''draw one'' ''what is applea fruit'')
       (called (IsRelated ''draw one'' ''fruit'')
         (called (GetContextTitle ''what is applea fruit'' 20) second_turn)))"
    by (simp add: refine_memory_def second_turn_last_talk second_turn_history_text
        fixed_env_def fixed_llm_def Let_def)
  have a: "aask (llm (fixed_env True (Inl (Exception ''timeout'')) None NoResult)) p =
      Inl (Exception ''timeout'')" for p
    by (simp add: fixed_env_def fixed_llm_def)
  have s: "skills (fixed_env True (Inl (Exception ''timeout'')) None NoResult) = one_skill"
    by (simp add: fixed_env_def)
  show ?thesis
    by (simp add: think_def r a s Let_def)
qed

subsection \<open>Effects of the refinement and of the handlers\<close>

lemma refine_memory_memory:
  assumes "refine_memory E st = (r, st1)"
  shows "todo st1 = todo st \<and>
    ((\<exists>e. r = Inl e) \<longrightarrow> memory st1 = memory st) \<and>
    (\<forall>lt. r = Inr (Some lt) \<and> lt \<noteq> [] \<longrightarrow>
       ((\<exists>l summary. last_talk (memory st) = Some l \<and> l \<noteq> [] \<and>
           history_text (memory st) \<noteq> [] \<and>
           get_context_title (llm E) (history_text (memory st)) 20 = Inr summary \<and>
           is_related (llm E) l summary = Inr False) \<longrightarrow>
          memory st1 = move_to_solution (memory st)) \<and>
       (\<not> (\<exists>l summary. last_talk (memory st) = Some l \<and> l \<noteq> [] \<and>
           history_text (memory st) \<noteq> [] \<and>
           get_context_title (llm E) (history_text (memory st)) 20 = Inr summary \<and>
           is_related (llm E) l summary = Inr False) \<longrightarrow>
          memory st1 = memory st))"
  using assms
  by (auto simp: refine_memory_def called_def Let_def
      split: option.splits if_splits sum.splits)

lemma refine_memory_unrelated:
  assumes "last_talk (memory st) = Some l" and "l \<noteq> []"
    and "history_text (memory st) \<noteq> []"
    and "get_context_title (llm E) (history_text (memory st)) 20 = Inr summary"
    and "is_related (llm E) l summary = Inr False"
  shows "fst (refine_memory E st) = Inr (Some l)"
  using assms by (simp add: refine_memory_def Let_def)


lemma skill_handler_failure:
  "skill_handler E text lt st = (Inl e, st') \<Longrightarrow> st' = st"
  by (auto simp: skill_handler_def talk_handler_def
      split: option.splits sum.splits)

lemma run_handler_failure:
  "run_handler h E text lt st = (Inl e, st') \<Longrightarrow> st' = st"
  by (cases h) (auto simp: talk_handler_def dest: skill_handler_failure)

lemma plan_failure: "plan E rsp lt st = (Inl e, st') \<Longrightarrow> st' = st"
  by (auto simp: plan_def Let_def dest: run_handler_failure split: prod.splits)

subsection \<open>The refine phase\<close>

text \<open>
  Claim C2. When the memory has no unconsumed talk entry, that is, \<open>last_talk\<close> is
  absent, \<open>refine_memory\<close> returns absent and \<open>think\<close> returns false. Both leave the
  whole state as it was: no call to the language model is recorded, no prompt is built
  or logged.
\<close>

theorem think_absent_last_talk:
  assumes "last_talk (memory st) = None"
  shows "refine_memory E st = (Inr None, st) \<and> think E st = (Inr False, st)"
  using assms by (simp add: refine_memory_def think_def)

theorem think_absent_last_talk_witness:
  "last_talk (memory answered_turn) = None \<and>
   think (fixed_env True (Inr ''[TALK]: apple'') None NoResult) answered_turn =
     (Inr False, answered_turn) \<and>
   llm_calls answered_turn = []"
proof -
  have h: "last_talk (memory answered_turn) = None"
    by (simp add: answered_turn_def first_turn_def talk_def new_assistant_def add_talk_def
        add_answer_def new_message_def last_talk_def is_talk_def)
  have "llm_calls answered_turn = []"
    by (simp add: answered_turn_def first_turn_def talk_def new_assistant_def)
  then show ?thesis
    using h think_absent_last_talk [OF h, of "fixed_env True (Inr ''[TALK]: apple'') None NoResult"]
    by simp
qed

text \<open>
  Claim C4. When \<open>history_text\<close> is empty, \<open>refine_memory\<close> returns the last talk as it
  stands in the memory and leaves the whole state as it was; in particular it records no
  summary, relatedness or rewrite call.
\<close>

theorem refine_memory_empty_history:
  assumes "history_text (memory st) = []"
  shows "refine_memory E st = (Inr (last_talk (memory st)), st)"
  using assms by (simp add: refine_memory_def split: option.splits)

theorem refine_memory_empty_history_witness:
  "history_text (memory first_turn) = [] \<and>
   refine_memory (fixed_env True (Inr ''[TALK]: apple'') None NoResult) first_turn =
     (Inr (Some ''what is apple''), first_turn)"
proof -
  have l: "last_talk (memory first_turn) = Some ''what is apple''"
    by (simp add: first_turn_def talk_def new_assistant_def add_talk_def new_message_def
        last_talk_def is_talk_def)
  have h: "history_text (memory first_turn) = []"
    unfolding history_text_def l
    by (simp add: first_turn_def talk_def new_assistant_def add_talk_def)
  show ?thesis
    using h l
      refine_memory_empty_history [OF h, of "fixed_env True (Inr ''[TALK]: apple'') None NoResult"]
    by simp
qed

text \<open>
  Claim C3. Refinement with a non-empty history, once the summary of the history has been
  obtained. The relatedness check is made for a non-empty last talk (Python's \<open>and\<close>
  skips it for the empty string). If the check returns true, the refined utterance is
  the model's rewrite of the last talk in the light of the history text, and the memory
  is as it was. If it returns false, the memory is checkpointed and the refined utterance
  is the last talk itself.
\<close>

theorem refine_memory_related:
  assumes "last_talk (memory st) = Some lt"
    and "history_text (memory st) \<noteq> []"
    and "get_context_title (llm E) (history_text (memory st)) 20 = Inr summary"
  shows "(lt \<noteq> [] \<and> is_related (llm E) lt summary = Inr True \<and>
          rewrite (llm E) lt (history_text (memory st)) = Inr r \<longrightarrow>
            fst (refine_memory E st) = Inr (Some r) \<and>
            memory (snd (refine_memory E st)) = memory st \<and>
            llm_calls (snd (refine_memory E st)) =
              llm_calls st @ [GetContextTitle (history_text (memory st)) 20,
                IsRelated lt summary, Rewrite lt (history_text (memory st))]) \<and>
         (is_related (llm E) lt summary = Inr False \<longrightarrow>
            fst (refine_memory E st) = Inr (Some lt) \<and>
            memory (snd (refine_memory E st)) = move_to_solution (memory st))"
  using assms by (simp add: refine_memory_def called_def Let_def)

theorem refine_memory_related_witness:
  "fst (refine_memory (fixed_env True (Inr ''[TALK]: apple'') None NoResult) second_turn) =
     Inr (Some ''about fruit: draw one'') \<and>
   memory (snd (refine_memory (fixed_env True (Inr ''[TALK]: apple'') None NoResult) second_turn)) =
     memory second_turn \<and>
   fst (refine_memory (fixed_env False (Inr ''[TALK]: apple'') None NoResult) second_turn) =
     Inr (Some ''draw one'') \<and>
   memory (snd (refine_memory (fixed_env False (Inr ''[TALK]: apple'') None NoResult) second_turn)) =
     move_to_solution (memory second_turn)"
proof -
  have h: "history_text (memory second_turn) \<noteq> []"
    by (simp add: second_turn_history_text)
  have t: "get_context_title (llm (fixed_env b (Inr ''[TALK]: apple'') None NoResult))
      (history_text (memory second_turn)) 20 = Inr ''fruit''" for b
    by (simp add: fixed_env_def fixed_llm_def)
  show ?thesis
    using refine_memory_related [OF second_turn_last_talk h t [of True],
        of "''about fruit: draw one''"]
      refine_memory_related [OF second_turn_last_talk h t [of False]]
    by (simp add: fixed_env_def fixed_llm_def)
qed

subsection \<open>The parser\<close>

text \<open>
  Claim C7. An output of the language model that contains none of the four markers
  \<open>[SKILL]:\<close>, \<open>[SOLUTION]:\<close>, \<open>[PROBLEM]:\<close>, \<open>[TALK]:\<close> is parsed to the tag Talk
  with the whole trimmed input as payload; the dispatcher then runs the talk handler on
  it and returns true, so such an output does not abort the cycle.
\<close>

theorem extract_info_no_marker:
  assumes "\<not> sublist ''[SKILL]:'' s \<and> \<not> sublist ''[SOLUTION]:'' s \<and>
    \<not> sublist ''[PROBLEM]:'' s \<and> \<not> sublist ''[TALK]:'' s"
  shows "extract_info s = (MessageType_value Talk, strip s) \<and>
    plan E s lt st = talk_handler E (strip s) lt st \<and>
    fst (plan E s lt st) = Inr True"
proof -
  have "first_marker s = None" using assms by (simp add: first_marker_none)
  then have e: "extract_info s = (MessageType_value Talk, strip s)"
    by (simp add: extract_info_def)
  then show ?thesis
    by (simp add: plan_def handlers_def talk_handler_def)
qed

theorem extract_info_no_marker_witness:
  "extract_info ''  hello there  '' = (''TALK'', ''hello there'')"
proof -
  have h: "\<not> sublist ''[SKILL]:'' ''  hello there  '' \<and>
    \<not> sublist ''[SOLUTION]:'' ''  hello there  '' \<and>
    \<not> sublist ''[PROBLEM]:'' ''  hello there  '' \<and>
    \<not> sublist ''[TALK]:'' ''  hello there  ''"
    by (simp add: sublist_Cons_right)
  have "strip ''  hello there  '' = ''hello there''"
    by (simp add: strip_def is_space_def)
  then show ?thesis using extract_info_no_marker [OF h] by simp
qed

subsection \<open>The dispatcher\<close>

text \<open>
  Claim C10. A parsed tag that is not the value of Talk, Problem or Skill (the value of
  Solution is such a tag) has no entry in the handler table: \<open>plan\<close> takes the default,
  runs the talk handler on the payload, which stores the talk action for it, and returns
  true; so does a cycle whose classification response carries such a tag.
\<close>

theorem plan_default_arm:
  assumes "extract_info rsp = (tag, text)"
    and "tag \<notin> {MessageType_value Talk, MessageType_value Problem, MessageType_value Skill}"
  shows "plan E rsp lt st = talk_handler E text lt st \<and>
    fst (plan E rsp lt st) = Inr True \<and>
    todo (snd (plan E rsp lt st)) = Some (TalkAction text (get_knowledge E (memory st)) lt) \<and>
    (refine_memory E st0 = (Inr (Some lt), st1) \<and> lt \<noteq> [] \<and>
     aask (llm E) (build_prompt lt (get_skill_list (skills E))) = Inr rsp \<longrightarrow>
       fst (think E st0) = Inr True)"
  using assms
  by (simp add: plan_def handlers_def talk_handler_def add_to_do_def think_def Let_def)

theorem plan_default_arm_witness:
  "extract_info ''[SOLUTION]: done'' = (MessageType_value Solution, ''done'') \<and>
   plan (fixed_env True (Inr ''[SOLUTION]: done'') None NoResult) ''[SOLUTION]: done''
     ''what is apple'' first_turn =
   talk_handler (fixed_env True (Inr ''[SOLUTION]: done'') None NoResult) ''done''
     ''what is apple'' first_turn"
proof -
  have e: "extract_info ''[SOLUTION]: done'' = (MessageType_value Solution, ''done'')"
    by (simp add: extract_info_def markers_def payload_def strip_def is_space_def
      is_identifier_def newline_def)
  have n: "MessageType_value Solution \<notin>
      {MessageType_value Talk, MessageType_value Problem, MessageType_value Skill}"
    by simp
  show ?thesis using e plan_default_arm [OF e n] by simp
qed

text \<open>
  Claim C5, as amended. For a classification tagged Skill: when the payload names no
  skill of the catalog, or the arguments parsed for the skill found are absent, \<open>plan\<close>
  returns true and stores the talk action built from the original last talk (not from
  the payload), the very action that a response classified as Talk with the last talk as
  payload leads to, and the memory is as it was. When arguments are parsed, \<open>plan\<close>
  returns true and stores the skill action. When the argument parsing raises, \<open>plan\<close>
  raises the same exception and the state is as it was. So \<open>plan\<close> returns true
  exactly when the argument parsing, if it is reached, returns.
\<close>

theorem skill_handler_outcomes:
  assumes "extract_info rsp = (MessageType_value Skill, text)"
  shows
    "(get_skill (skills E) text = None \<or>
      (\<exists>skill. get_skill (skills E) text = Some skill \<and>
         parse_arguments E skill lt = Inr None) \<longrightarrow>
        fst (plan E rsp lt st) = Inr True \<and>
        todo (snd (plan E rsp lt st)) = Some (TalkAction lt (get_knowledge E (memory st)) lt) \<and>
        memory (snd (plan E rsp lt st)) = memory st \<and>
        (\<forall>rsp'. extract_info rsp' = (MessageType_value Talk, lt) \<longrightarrow>
           todo (snd (plan E rsp' lt st)) = todo (snd (plan E rsp lt st)))) \<and>
     (\<forall>skill args. get_skill (skills E) text = Some skill \<and>
        parse_arguments E skill lt = Inr (Some args) \<longrightarrow>
        plan E rsp lt st =
          (Inr True,
           add_to_do (SkillAction skill args (skill_name skill) (skill_description skill)) st)) \<and>
     (\<forall>skill e. get_skill (skills E) text = Some skill \<and>
        parse_arguments E skill lt = Inl e \<longrightarrow>
        plan E rsp lt st = (Inl e, st)) \<and>
     (fst (plan E rsp lt st) = Inr True \<longleftrightarrow>
        \<not> (\<exists>skill e. get_skill (skills E) text = Some skill \<and>
             parse_arguments E skill lt = Inl e))"
proof -
  have p: "plan E rsp lt st = skill_handler E text lt st"
    using assms by (rule plan_skill)
  show ?thesis
  proof (cases "get_skill (skills E) text")
    case None
    then show ?thesis
      by (simp add: p plan_talk skill_handler_def talk_handler_def add_to_do_def logger_def)
  next
    case (Some skill)
    note found = this
    show ?thesis
    proof (cases "parse_arguments E skill lt")
      case (Inl e)
      with found show ?thesis by (simp add: p skill_handler_def)
    next
      case (Inr parsed)
      show ?thesis
      proof (cases parsed)
        case None
        with found Inr show ?thesis
          by (simp add: p plan_talk skill_handler_def talk_handler_def add_to_do_def)
      next
        case (Some args)
        with found Inr show ?thesis by (simp add: p skill_handler_def)
      qed
    qed
  qed
qed

theorem skill_handler_outcomes_witness:
  "todo (snd (plan (fixed_env True (Inr ''[SKILL]: unknown_x'') None NoResult)
      ''[SKILL]: unknown_x'' ''what is apple'' first_turn)) =
     Some (TalkAction ''what is apple'' [] ''what is apple'') \<and>
   todo (snd (plan (fixed_env True (Inr ''[SKILL]: unknown_x'') None NoResult)
      ''[TALK]: what is apple'' ''what is apple'' first_turn)) =
     Some (TalkAction ''what is apple'' [] ''what is apple'') \<and>
   todo (snd (plan (fixed_env True (Inr ''[SKILL]: text_to_image'') None NoResult)
      ''[SKILL]: text_to_image'' ''what is apple'' first_turn)) =
     Some (TalkAction ''what is apple'' [] ''what is apple'') \<and>
   fst (plan (fixed_env True (Inr ''[SKILL]: text_to_image'') None NoResult)
      ''[SKILL]: text_to_image'' ''what is apple'' first_turn) = Inr True \<and>
   plan (fixed_env True (Inr ''[SKILL]: text_to_image'') (Some draw_arguments) NoResult)
      ''[SKILL]: text_to_image'' ''what is apple'' first_turn =
     (Inr True,
      add_to_do (SkillAction text_to_image draw_arguments ''text_to_image'' ''draw a picture'')
        first_turn) \<and>
   plan failing_parser_env ''[SKILL]: text_to_image'' ''what is apple'' first_turn =
     (Inl (Exception ''timeout''), first_turn)"
proof -
  have 1: "todo (snd (plan (fixed_env True (Inr ''[SKILL]: unknown_x'') None NoResult)
      ''[SKILL]: unknown_x'' ''what is apple'' first_turn)) =
     Some (TalkAction ''what is apple'' [] ''what is apple'') \<and>
   todo (snd (plan (fixed_env True (Inr ''[SKILL]: unknown_x'') None NoResult)
      ''[TALK]: what is apple'' ''what is apple'' first_turn)) =
     Some (TalkAction ''what is apple'' [] ''what is apple'')"
    using skill_handler_outcomes [OF extract_info_skill_unknown,
        of "fixed_env True (Inr ''[SKILL]: unknown_x'') None NoResult" "''what is apple''"
          first_turn]
      extract_info_talk
    by (simp add: fixed_env_def one_skill_def)
  have 2: "todo (snd (plan (fixed_env True (Inr ''[SKILL]: text_to_image'') None NoResult)
      ''[SKILL]: text_to_image'' ''what is apple'' first_turn)) =
     Some (TalkAction ''what is apple'' [] ''what is apple'') \<and>
   fst (plan (fixed_env True (Inr ''[SKILL]: text_to_image'') None NoResult)
      ''[SKILL]: text_to_image'' ''what is apple'' first_turn) = Inr True"
    using skill_handler_outcomes [OF extract_info_skill_known,
        of "fixed_env True (Inr ''[SKILL]: text_to_image'') None NoResult" "''what is apple''"
          first_turn]
    by (simp add: fixed_env_def one_skill_def)
  have 3: "plan (fixed_env True (Inr ''[SKILL]: text_to_image'') (Some draw_arguments) NoResult)
      ''[SKILL]: text_to_image'' ''what is apple'' first_turn =
     (Inr True,
      add_to_do (SkillAction text_to_image draw_arguments ''text_to_image'' ''draw a picture'')
        first_turn)"
    using skill_handler_outcomes [OF extract_info_skill_known,
        of "fixed_env True (Inr ''[SKILL]: text_to_image'') (Some draw_arguments) NoResult"
          "''what is apple''" first_turn]
    by (simp add: fixed_env_def one_skill_def text_to_image_def)
  have 4: "plan failing_parser_env ''[SKILL]: text_to_image'' ''what is apple'' first_turn =
     (Inl (Exception ''timeout''), first_turn)"
    using skill_handler_outcomes [OF extract_info_skill_known,
        of failing_parser_env "''what is apple''" first_turn]
    by (simp add: failing_parser_env_def fixed_env_def one_skill_def)
  from 1 2 3 4 show ?thesis by simp
qed

text \<open>
  Claim C5 as stated says that the Router returns true in every branch and never raises.
  \<open>skill_handler\<close> awaits the argument parsing with no handler around it: with a
  catalog that knows the skill and an argument parsing that raises, \<open>plan\<close> raises, and
  so does the cycle.
\<close>

theorem skill_handler_raises:
  "extract_info ''[SKILL]: text_to_image'' = (MessageType_value Skill, ''text_to_image'') \<and>
   get_skill (skills failing_parser_env) ''text_to_image'' = Some text_to_image \<and>
   plan failing_parser_env ''[SKILL]: text_to_image'' ''what is apple'' first_turn =
     (Inl (Exception ''timeout''), first_turn) \<and>
   fst (think failing_parser_env first_turn) = Inl (Exception ''timeout'')"
proof -
  have g: "get_skill (skills failing_parser_env) ''text_to_image'' = Some text_to_image"
    by (simp add: failing_parser_env_def fixed_env_def one_skill_def)
  have f: "parse_arguments failing_parser_env skill lt = Inl (Exception ''timeout'')" for skill lt
    by (simp add: failing_parser_env_def)
  have a: "aask (llm failing_parser_env) p = Inr ''[SKILL]: text_to_image''" for p
    by (simp add: failing_parser_env_def fixed_env_def fixed_llm_def)
  have p: "plan failing_parser_env ''[SKILL]: text_to_image'' lt st =
      (Inl (Exception ''timeout''), st)" for lt st
    by (simp add: plan_skill [OF extract_info_skill_known] skill_handler_def g f)
  show ?thesis
    by (simp add: extract_info_skill_known g p think_def first_turn_refine a Let_def)
qed

text \<open>
  Claim C1, as amended. Every parsed tag is routed to one of the two handlers: Skill to
  the skill handler, every other tag to the talk handler with the payload. Every response
  that \<open>think\<close> obtains from the language model is handed to \<open>plan\<close>, whatever its tag:
  nothing in the refinement looks at the tag, and a response parsed as Solution is
  dispatched to the talk handler like Talk and Problem.
\<close>

theorem plan_two_handlers:
  "plan E rsp lt st =
     (if fst (extract_info rsp) = MessageType_value Skill
      then skill_handler E (snd (extract_info rsp)) lt st
      else talk_handler E (snd (extract_info rsp)) lt st) \<and>
   (refine_memory E st0 = (Inr (Some lt), st1) \<and> lt \<noteq> [] \<and>
    aask (llm E) (build_prompt lt (get_skill_list (skills E))) = Inr rsp \<longrightarrow>
      think E st0 =
        plan E rsp lt
          (logger (Info rsp)
            (called (Aask (build_prompt lt (get_skill_list (skills E))))
              (logger (Info (build_prompt lt (get_skill_list (skills E)))) st1))))"
  by (cases "extract_info rsp") (simp add: plan_def handlers_def think_def Let_def)

theorem plan_two_handlers_witness:
  "plan (fixed_env True (Inr ''[SOLUTION]: done'') None NoResult) ''[SOLUTION]: done''
     ''what is apple'' first_turn =
   talk_handler (fixed_env True (Inr ''[SOLUTION]: done'') None NoResult) ''done''
     ''what is apple'' first_turn \<and>
   plan (fixed_env True (Inr ''[SKILL]: unknown_x'') None NoResult) ''[SKILL]: unknown_x''
     ''what is apple'' first_turn =
   skill_handler (fixed_env True (Inr ''[SKILL]: unknown_x'') None NoResult) ''unknown_x''
     ''what is apple'' first_turn"
  using plan_two_handlers [of "fixed_env True (Inr ''[SOLUTION]: done'') None NoResult"
      "''[SOLUTION]: done''" "''what is apple''" first_turn first_turn first_turn]
    plan_two_handlers [of "fixed_env True (Inr ''[SKILL]: unknown_x'') None NoResult"
      "''[SKILL]: unknown_x''" "''what is apple''" first_turn first_turn first_turn]
  by (simp add: extract_info_solution extract_info_skill_unknown)

text \<open>
  Claim C1 as stated says that a response parsed as Solution is caught during memory
  refinement and never reaches a handler. In the first cycle of a conversation the
  response \<open>[SOLUTION]: done\<close> is parsed as Solution, the memory is not checkpointed, and
  the talk handler stores the talk action for the payload.
\<close>

theorem solution_is_dispatched:
  "fst (extract_info ''[SOLUTION]: done'') = MessageType_value Solution \<and>
   fst (think (fixed_env True (Inr ''[SOLUTION]: done'') None NoResult) first_turn) = Inr True \<and>
   todo (snd (think (fixed_env True (Inr ''[SOLUTION]: done'') None NoResult) first_turn)) =
     Some (TalkAction ''done'' [] ''what is apple'') \<and>
   memory (snd (think (fixed_env True (Inr ''[SOLUTION]: done'') None NoResult) first_turn)) =
     memory first_turn"
proof -
  have a: "aask (llm (fixed_env True (Inr ''[SOLUTION]: done'') None NoResult)) p =
      Inr ''[SOLUTION]: done''" for p
    by (simp add: fixed_env_def fixed_llm_def)
  have g: "get_knowledge (fixed_env True (Inr ''[SOLUTION]: done'') None NoResult) m = []" for m
    by (simp add: fixed_env_def)
  show ?thesis
    by (simp add: think_def first_turn_refine a g Let_def plan_def handlers_def
        extract_info_solution talk_handler_def add_to_do_def logger_def called_def)
qed

subsection \<open>Failure of a cycle\<close>

text \<open>
  Claim C6, as amended. When \<open>think\<close> raises, the pending action is the one from before
  the call. When the raise comes from refinement (the summary, relatedness or rewrite
  call), the memory is unchanged. When refinement found the last talk unrelated to the
  history (the last talk and the history text are non-empty, the summary returned and
  the relatedness check returned false), the memory is the checkpointed memory: the
  checkpoint made before the failing call stays. In every other case the memory is
  unchanged.
\<close>

theorem think_failure_memory:
  assumes "think E st = (Inl e, st')"
  shows "todo st' = todo st \<and>
    ((\<exists>e'. fst (refine_memory E st) = Inl e') \<longrightarrow> memory st' = memory st) \<and>
    ((\<exists>lt summary. last_talk (memory st) = Some lt \<and> lt \<noteq> [] \<and>
        history_text (memory st) \<noteq> [] \<and>
        get_context_title (llm E) (history_text (memory st)) 20 = Inr summary \<and>
        is_related (llm E) lt summary = Inr False) \<longrightarrow>
       memory st' = move_to_solution (memory st)) \<and>
    (\<not> (\<exists>lt summary. last_talk (memory st) = Some lt \<and> lt \<noteq> [] \<and>
        history_text (memory st) \<noteq> [] \<and>
        get_context_title (llm E) (history_text (memory st)) 20 = Inr summary \<and>
        is_related (llm E) lt summary = Inr False) \<longrightarrow>
       memory st' = memory st)"
proof -
  let ?U = "\<exists>lt summary. last_talk (memory st) = Some lt \<and> lt \<noteq> [] \<and>
        history_text (memory st) \<noteq> [] \<and>
        get_context_title (llm E) (history_text (memory st)) 20 = Inr summary \<and>
        is_related (llm E) lt summary = Inr False"
  obtain r st1 where r: "refine_memory E st = (r, st1)" by (cases "refine_memory E st")
  note eff = refine_memory_memory [OF r]
  show ?thesis
  proof (cases r)
    case (Inl e')
    with r assms have s: "st' = st1" by (simp add: think_def)
    have "\<not> ?U"
    proof
      assume ?U
      then obtain l summary where "last_talk (memory st) = Some l" "l \<noteq> []"
        "history_text (memory st) \<noteq> []"
        "get_context_title (llm E) (history_text (memory st)) 20 = Inr summary"
        "is_related (llm E) l summary = Inr False" by blast
      then have "fst (refine_memory E st) = Inr (Some l)" by (rule refine_memory_unrelated)
      with r Inl show False by simp
    qed
    with s eff Inl show ?thesis by blast
  next
    case (Inr refined)
    have no_fail: "\<not> (\<exists>e'. fst (refine_memory E st) = Inl e')" using r Inr by simp
    from assms r Inr obtain lt where lt: "refined = Some lt" "lt \<noteq> []"
      by (cases refined) (auto simp: think_def split: if_splits)
    let ?p = "build_prompt lt (get_skill_list (skills E))"
    let ?st2 = "called (Aask ?p) (logger (Info ?p) st1)"
    have same: "memory st' = memory st1 \<and> todo st' = todo st1"
    proof (cases "aask (llm E) ?p")
      case (Inl e2)
      with assms r Inr lt have "st' = ?st2" by (simp add: think_def Let_def)
      then show ?thesis by (simp add: called_def logger_def)
    next
      case (Inr rsp)
      with assms r \<open>r = Inr refined\<close> lt
      have "plan E rsp lt (logger (Info rsp) ?st2) = (Inl e, st')"
        by (simp add: think_def Let_def)
      then have "st' = logger (Info rsp) ?st2" by (rule plan_failure)
      then show ?thesis by (simp add: called_def logger_def)
    qed
    from eff Inr lt have
      "(?U \<longrightarrow> memory st1 = move_to_solution (memory st)) \<and>
       (\<not> ?U \<longrightarrow> memory st1 = memory st)"
      by blast
    with same eff no_fail show ?thesis by simp
  qed
qed

theorem think_failure_memory_witness:
  "fst (think (fixed_env False (Inl (Exception ''timeout'')) None NoResult) second_turn) =
     Inl (Exception ''timeout'') \<and>
   todo (snd (think (fixed_env False (Inl (Exception ''timeout'')) None NoResult) second_turn)) =
     todo second_turn \<and>
   memory (snd (think (fixed_env False (Inl (Exception ''timeout'')) None NoResult) second_turn)) =
     move_to_solution (memory second_turn) \<and>
   fst (think (fixed_env True (Inl (Exception ''timeout'')) None NoResult) second_turn) =
     Inl (Exception ''timeout'') \<and>
   memory (snd (think (fixed_env True (Inl (Exception ''timeout'')) None NoResult) second_turn)) =
     memory second_turn"
proof -
  have u: "\<exists>lt summary. last_talk (memory second_turn) = Some lt \<and> lt \<noteq> [] \<and>
      history_text (memory second_turn) \<noteq> [] \<and>
      get_context_title (llm (fixed_env False (Inl (Exception ''timeout'')) None NoResult))
        (history_text (memory second_turn)) 20 = Inr summary \<and>
      is_related (llm (fixed_env False (Inl (Exception ''timeout'')) None NoResult))
        lt summary = Inr False"
    by (simp add: second_turn_last_talk second_turn_history_text fixed_env_def fixed_llm_def)
  have n: "\<not> (\<exists>lt summary. last_talk (memory second_turn) = Some lt \<and> lt \<noteq> [] \<and>
      history_text (memory second_turn) \<noteq> [] \<and>
      get_context_title (llm (fixed_env True (Inl (Exception ''timeout'')) None NoResult))
        (history_text (memory second_turn)) 20 = Inr summary \<and>
      is_related (llm (fixed_env True (Inl (Exception ''timeout'')) None NoResult))
        lt summary = Inr False)"
    by (simp add: fixed_env_def fixed_llm_def)
  have 1: "todo (snd (think (fixed_env False (Inl (Exception ''timeout'')) None NoResult)
        second_turn)) = todo second_turn \<and>
      memory (snd (think (fixed_env False (Inl (Exception ''timeout'')) None NoResult)
        second_turn)) = move_to_solution (memory second_turn)"
    using think_failure_memory [OF second_turn_think_timeout] u
    by (simp add: second_turn_think_timeout)
  have 2: "memory (snd (think (fixed_env True (Inl (Exception ''timeout'')) None NoResult)
        second_turn)) = memory second_turn"
    using think_failure_memory [OF second_turn_think_timeout_related] n
    by (simp add: second_turn_think_timeout_related)
  from 1 2 show ?thesis
    by (simp add: second_turn_think_timeout second_turn_think_timeout_related)
qed

text \<open>
  Claim C6 as stated says that a cycle that aborts leaves the memory unchanged. In the
  second turn of a conversation, with a model that finds the new talk unrelated and then
  fails on the classification call, \<open>think\<close> raises and the memory has been
  checkpointed: it differs from the memory before the call.
\<close>

theorem think_failure_checkpointed:
  "fst (think (fixed_env False (Inl (Exception ''timeout'')) None NoResult) second_turn) =
     Inl (Exception ''timeout'') \<and>
   memory (snd (think (fixed_env False (Inl (Exception ''timeout'')) None NoResult) second_turn)) =
     move_to_solution (memory second_turn) \<and>
   move_to_solution (memory second_turn) \<noteq> memory second_turn"
proof -
  have m: "history (memory second_turn) \<noteq> []"
    by (simp add: second_turn_def talk_def add_talk_def)
  have "history (move_to_solution (memory second_turn)) = []"
    by (simp add: move_to_solution_def)
  with m have d: "move_to_solution (memory second_turn) \<noteq> memory second_turn"
    by metis
  show ?thesis
    using d by (simp add: second_turn_think_timeout called_def logger_def)
qed

subsection \<open>The execute phase\<close>

text \<open>
  Claim C8, as amended. With a pending action whose \<open>run\<close> returns: when the result is
  \<open>None\<close> or the empty string, \<open>act\<close> returns \<open>None\<close> and changes nothing; when it
  is a non-empty string, an answer entry with that text is appended to the memory and an
  output with that text is returned; when it is an \<open>ActionOutput\<close>, an answer entry
  with its content is appended and the output itself is returned.
\<close>

theorem act_results:
  assumes "todo st = Some action" and "run_action E action = Inr r"
  shows "(falsy r \<longrightarrow> act E st = (Inr None, st)) \<and>
    (\<forall>s. r = Text s \<and> s \<noteq> [] \<longrightarrow>
       act E st =
         (Inr (Some \<lparr>out_content = s, out_instruct_content = None\<rparr>),
          st\<lparr>memory := add_answer (memory st) (new_message s)\<rparr>) \<and>
       history (memory (snd (act E st))) =
         history (memory st) @ [\<lparr>utt_role = RoleAnswer, utt_message = new_message s\<rparr>]) \<and>
    (\<forall>out. r = Output out \<longrightarrow>
       fst (act E st) = Inr (Some out) \<and>
       (\<exists>msg. content msg = out_content out \<and>
          memory (snd (act E st)) = add_answer (memory st) msg \<and>
          history (memory (snd (act E st))) =
            history (memory st) @ [\<lparr>utt_role = RoleAnswer, utt_message = msg\<rparr>]))"
  using assms
  by (cases r) (auto simp: act_def falsy_def add_answer_def new_message_def)

theorem act_results_witness:
  "act (fixed_env True (Inr ''[TALK]: apple'') None (Text ''a fruit''))
     (add_to_do (TalkAction ''apple'' [] ''what is apple'') first_turn) =
     (Inr (Some \<lparr>out_content = ''a fruit'', out_instruct_content = None\<rparr>),
      (add_to_do (TalkAction ''apple'' [] ''what is apple'') first_turn)
        \<lparr>memory := add_answer (memory first_turn) (new_message ''a fruit'')\<rparr>) \<and>
   act (fixed_env True (Inr ''[TALK]: apple'') None NoResult)
     (add_to_do (TalkAction ''apple'' [] ''what is apple'') first_turn) =
     (Inr None, add_to_do (TalkAction ''apple'' [] ''what is apple'') first_turn)"
proof -
  have t: "todo (add_to_do (TalkAction ''apple'' [] ''what is apple'') first_turn) =
      Some (TalkAction ''apple'' [] ''what is apple'')"
    by (simp add: add_to_do_def)
  have r: "run_action (fixed_env True (Inr ''[TALK]: apple'') None res)
      (TalkAction ''apple'' [] ''what is apple'') = Inr res" for res
    by (simp add: fixed_env_def)
  show ?thesis
    using act_results [OF t r [of "Text ''a fruit''"]] act_results [OF t r [of NoResult]]
    by (simp add: falsy_def add_to_do_def)
qed

text \<open>
  Claim C8 as stated appends every result other than no result at all. An action that
  returns the empty string has returned a text, yet \<open>act\<close> returns \<open>None\<close> and appends
  nothing.
\<close>

theorem act_empty_text:
  "run_action (fixed_env True (Inr ''[TALK]: apple'') None (Text []))
     (TalkAction ''apple'' [] ''what is apple'') = Inr (Text []) \<and>
   Text [] \<noteq> NoResult \<and>
   act (fixed_env True (Inr ''[TALK]: apple'') None (Text []))
     (add_to_do (TalkAction ''apple'' [] ''what is apple'') first_turn) =
     (Inr None, add_to_do (TalkAction ''apple'' [] ''what is apple'') first_turn)"
  by (simp add: act_def add_to_do_def fixed_env_def)

subsection \<open>Restoring the memory\<close>



end
